theory Spec2Isabelle
  imports Complex_Main "HOL-Library.Sublist"
begin

section \<open>The camera session of \<^verbatim>\<open>camera_stream.py\<close>\<close>

text \<open>
  The class \<^verbatim>\<open>IMX219Camera\<close> wraps one \<^verbatim>\<open>cv2.VideoCapture\<close> object. The capture
  library is not part of the repository, so it enters the model as a parameter: a record
  of functions, one per call the class makes. Each call acts on a backend state \<open>'w\<close>
  (the devices, the pipelines, the buffers) and a capture object is a reference \<open>'h\<close>
  into that state. A call made by the class either returns a value or raises a Python
  exception that is an instance of \<^verbatim>\<open>Exception\<close> (the only kind the handler in
  \<^verbatim>\<open>open\<close> catches); \<^verbatim>\<open>release()\<close> returns nothing and is taken not to raise.
  Timestamps and the frame rate are Python floats; they are idealised as reals, and the
  value \<^verbatim>\<open>time.time()\<close> returns is passed to the operation that reads the clock.
  The \<^verbatim>\<open>print\<close> calls write diagnostics to standard output and touch no field of the
  session; they are left out, except that evaluating \<^verbatim>\<open>frame.shape\<close> for the
  success message raises when the frame is \<^verbatim>\<open>None\<close>.
\<close>

subsection \<open>Data\<close>

datatype exn = AttributeError | BackendError string

datatype api = CAP_GSTREAMER | CAP_V4L2

datatype cap_prop = CAP_PROP_FRAME_WIDTH | CAP_PROP_FRAME_HEIGHT | CAP_PROP_FPS

record ('h, 'f, 'w) cv2 =
  VideoCapture :: "string \<Rightarrow> api \<Rightarrow> 'w \<Rightarrow> (exn + 'h) \<times> 'w"
  cap_set :: "'h \<Rightarrow> cap_prop \<Rightarrow> int \<Rightarrow> 'w \<Rightarrow> (exn + bool) \<times> 'w"
  cap_isOpened :: "'h \<Rightarrow> 'w \<Rightarrow> (exn + bool) \<times> 'w"
  cap_read :: "'h \<Rightarrow> 'w \<Rightarrow> (exn + bool \<times> 'f option) \<times> 'w"
  cap_release :: "'h \<Rightarrow> 'w \<Rightarrow> 'w"

record 'h session =
  device :: string
  width :: int
  height :: int
  framerate :: int
  use_gstreamer :: bool
  cap :: "'h option"
  frame_count :: int
  start_time :: "real option"

text \<open>\<^verbatim>\<open>__init__\<close>: stores the parameters; no handle, no frames, no start time.\<close>

definition init :: "string \<Rightarrow> int \<Rightarrow> int \<Rightarrow> int \<Rightarrow> bool \<Rightarrow> 'h session" where
  "init dev w h fr gst =
     \<lparr>device = dev, width = w, height = h, framerate = fr, use_gstreamer = gst,
      cap = None, frame_count = 0, start_time = None\<rparr>"

subsection \<open>The pipeline description\<close>

text \<open>
  Python's \<^verbatim>\<open>str\<close> of an integer, as the f-string formats the geometry: the
  decimal digits, most significant first, after a minus sign for a negative number.
  \<open>digit_char\<close> is only applied to a number below ten.
\<close>

definition digit_char :: "nat \<Rightarrow> char" where
  "digit_char d = ''0123456789'' ! d"

function str_nat :: "nat \<Rightarrow> string" where
  "str_nat n = (if n < 10 then [digit_char n] else str_nat (n div 10) @ [digit_char (n mod 10)])"
  by pat_completeness auto
termination
  by (relation "measure id") auto

declare str_nat.simps [simp del]

definition str_int :: "int \<Rightarrow> string" where
  "str_int i = (if i < 0 then CHR ''-'' # str_nat (nat (- i)) else str_nat (nat i))"

text \<open>\<^verbatim>\<open>_build_gstreamer_pipeline\<close>: the adjacent f-string literals, concatenated.\<close>

definition build_gstreamer_pipeline :: "'h session \<Rightarrow> string" where
  "build_gstreamer_pipeline s =
     ''nvarguscamerasrc sensor-id=0 ! '' @
     ''video/x-raw(memory:NVMM), '' @
     ''width='' @ str_int (width s) @ '', height='' @ str_int (height s) @ '', '' @
     ''format=NV12, framerate='' @ str_int (framerate s) @ ''/1 ! '' @
     ''nvvidconv ! '' @
     ''video/x-raw, width='' @ str_int (width s) @ '', height='' @ str_int (height s) @
       '', format=BGRx ! '' @
     ''videoconvert ! '' @
     ''video/x-raw, format=BGR ! '' @
     ''appsink max-buffers=1 drop=true sync=false''"

subsection \<open>Operations\<close>

text \<open>
  A method call \<^verbatim>\<open>self.cap.m(...)\<close>: attribute lookup on \<^verbatim>\<open>None\<close> raises
  \<^verbatim>\<open>AttributeError\<close>; otherwise the backend acts on its own state and the
  session keeps the same reference.
\<close>

definition call ::
  "('h \<Rightarrow> 'w \<Rightarrow> (exn + 'a) \<times> 'w) \<Rightarrow> 'h session \<times> 'w \<Rightarrow> (exn + 'a) \<times> 'h session \<times> 'w" where
  "call m st =
     (case st of (s, w) \<Rightarrow>
        (case cap s of
           None \<Rightarrow> (Inl AttributeError, s, w)
         | Some h \<Rightarrow> (case m h w of (r, w') \<Rightarrow> (r, s, w'))))"

text \<open>Sequencing inside a \<^verbatim>\<open>try\<close> block: a raised exception skips the rest.\<close>

definition seq ::
  "(exn + 'a) \<times> 'st \<Rightarrow> ('a \<Rightarrow> 'st \<Rightarrow> (exn + 'b) \<times> 'st) \<Rightarrow> (exn + 'b) \<times> 'st" where
  "seq m k = (case m of (Inl e, st) \<Rightarrow> (Inl e, st) | (Inr v, st) \<Rightarrow> k v st)"

text \<open>\<^verbatim>\<open>close\<close>: release the handle if there is one, then forget it.\<close>

definition close :: "('h, 'f, 'w) cv2 \<Rightarrow> 'h session \<times> 'w \<Rightarrow> 'h session \<times> 'w" where
  "close cv st =
     (case st of (s, w) \<Rightarrow>
        (case cap s of
           None \<Rightarrow> (s, w)
         | Some h \<Rightarrow> (s\<lparr>cap := None\<rparr>, cap_release cv h w)))"

text \<open>
  The first statement of the \<^verbatim>\<open>try\<close> block of \<^verbatim>\<open>open\<close> (lines 72 to 81): construct
  the capture object for the chosen backend and store it in \<^verbatim>\<open>self.cap\<close>; the direct
  backend then requests width, height and frame rate on it.
\<close>

definition acquire ::
  "('h, 'f, 'w) cv2 \<Rightarrow> 'h session \<times> 'w \<Rightarrow> (exn + unit) \<times> 'h session \<times> 'w" where
  "acquire cv st =
     (case st of (s, w) \<Rightarrow>
        if use_gstreamer s then
          (case VideoCapture cv (build_gstreamer_pipeline s) CAP_GSTREAMER w of
             (Inl e, w') \<Rightarrow> (Inl e, s, w')
           | (Inr h, w') \<Rightarrow> (Inr (), s\<lparr>cap := Some h\<rparr>, w'))
        else
          (case VideoCapture cv (device s) CAP_V4L2 w of
             (Inl e, w') \<Rightarrow> (Inl e, s, w')
           | (Inr h, w') \<Rightarrow>
               seq (call (\<lambda>c. cap_set cv c CAP_PROP_FRAME_WIDTH (width s)) (s\<lparr>cap := Some h\<rparr>, w'))
                 (\<lambda>_ st1.
               seq (call (\<lambda>c. cap_set cv c CAP_PROP_FRAME_HEIGHT (height s)) st1)
                 (\<lambda>_ st2.
               seq (call (\<lambda>c. cap_set cv c CAP_PROP_FPS (framerate s)) st2)
                 (\<lambda>_ st3. (Inr (), st3))))))"

text \<open>
  The body of the \<^verbatim>\<open>try\<close> block of \<^verbatim>\<open>open\<close> (lines 72 to 98). \<open>now\<close> is what
  \<^verbatim>\<open>time.time()\<close> returns on line 97.
\<close>

definition open_try ::
  "('h, 'f, 'w) cv2 \<Rightarrow> real \<Rightarrow> 'h session \<times> 'w \<Rightarrow> (exn + bool) \<times> 'h session \<times> 'w" where
  "open_try cv now st =
     seq (acquire cv st) (\<lambda>_ st1.
     seq (call (cap_isOpened cv) st1) (\<lambda>opened st2.
       if \<not> opened then (Inr False, st2)
       else
         seq (call (cap_read cv) st2) (\<lambda>(ret, frame) st3.
           if \<not> ret then (Inr False, close cv st3)
           else
             (case frame of
                None \<Rightarrow> (Inl AttributeError, st3)
              | Some f \<Rightarrow>
                  (case st3 of (s3, w3) \<Rightarrow> (Inr True, s3\<lparr>start_time := Some now\<rparr>, w3))))))"

text \<open>\<^verbatim>\<open>open\<close>: the handler \<^verbatim>\<open>except Exception\<close> turns every exception into False.\<close>

definition "open" ::
  "('h, 'f, 'w) cv2 \<Rightarrow> real \<Rightarrow> 'h session \<times> 'w \<Rightarrow> bool \<times> 'h session \<times> 'w" where
  "open cv now st =
     (case open_try cv now st of
        (Inl e, st') \<Rightarrow> (False, st')
      | (Inr b, st') \<Rightarrow> (b, st'))"

text \<open>\<^verbatim>\<open>read\<close>: no handler here, so an exception of the backend propagates.\<close>

definition read ::
  "('h, 'f, 'w) cv2 \<Rightarrow> 'h session \<times> 'w \<Rightarrow> (exn + bool \<times> 'f option) \<times> 'h session \<times> 'w" where
  "read cv st =
     (case st of (s, w) \<Rightarrow>
        if cap s = None then (Inr (False, None), s, w)
        else
          seq (call (cap_read cv) (s, w)) (\<lambda>(ret, frame) (s1, w1).
            (Inr (ret, frame),
             (if ret then s1\<lparr>frame_count := frame_count s1 + 1\<rparr> else s1), w1)))"

text \<open>\<^verbatim>\<open>get_fps\<close>; \<open>now\<close> is what \<^verbatim>\<open>time.time()\<close> returns on line 131.\<close>

definition get_fps :: "real \<Rightarrow> 'h session \<Rightarrow> real" where
  "get_fps now s =
     (case start_time s of
        None \<Rightarrow> 0
      | Some t0 \<Rightarrow>
          if frame_count s = 0 then 0
          else
            (let elapsed = now - t0
             in if elapsed > 0 then real_of_int (frame_count s) / elapsed else 0))"

text \<open>
  \<^verbatim>\<open>__enter__\<close> calls \<^verbatim>\<open>open\<close> as a statement and returns \<^verbatim>\<open>self\<close>;
  \<^verbatim>\<open>__exit__\<close> ignores the exception triple it is given, calls \<^verbatim>\<open>close\<close> and
  returns \<^verbatim>\<open>None\<close>.
\<close>

definition enter :: "('h, 'f, 'w) cv2 \<Rightarrow> real \<Rightarrow> 'h session \<times> 'w \<Rightarrow> 'h session \<times> 'w" where
  "enter cv now st = (case open cv now st of (ok, st') \<Rightarrow> st')"

definition exit :: "('h, 'f, 'w) cv2 \<Rightarrow> exn option \<Rightarrow> 'h session \<times> 'w \<Rightarrow> 'h session \<times> 'w" where
  "exit cv exc st = close cv st"

text \<open>
  Python's \<^verbatim>\<open>with IMX219Camera(...) as cam: body\<close>: the block runs on what
  \<^verbatim>\<open>__enter__\<close> returned, \<^verbatim>\<open>__exit__\<close> is called with the exception the block
  raised (or none), and since it returns \<^verbatim>\<open>None\<close> that exception is raised again.
\<close>

definition with_session ::
  "('h, 'f, 'w) cv2 \<Rightarrow> real \<Rightarrow> ('h session \<times> 'w \<Rightarrow> (exn + 'a) \<times> 'h session \<times> 'w) \<Rightarrow>
   'h session \<times> 'w \<Rightarrow> (exn + 'a) \<times> 'h session \<times> 'w" where
  "with_session cv now body st =
     (case body (enter cv now st) of
        (Inl e, st') \<Rightarrow> (Inl e, exit cv (Some e) st')
      | (Inr v, st') \<Rightarrow> (Inr v, exit cv None st'))"

subsection \<open>Callers and test doubles\<close>

text \<open>
  A caller that calls \<^verbatim>\<open>read\<close> \<open>n\<close> times in a row and keeps every outcome, the
  way the loops of \<^verbatim>\<open>main\<close> and of the test scripts pull frames.
\<close>

fun reads ::
  "('h, 'f, 'w) cv2 \<Rightarrow> nat \<Rightarrow> 'h session \<times> 'w \<Rightarrow>
   (exn + bool \<times> 'f option) list \<times> 'h session \<times> 'w" where
  "reads cv 0 st = ([], st)"
| "reads cv (Suc n) st =
     (case read cv st of (r, st1) \<Rightarrow>
        (case reads cv n st1 of (rs, st2) \<Rightarrow> (r # rs, st2)))"

definition successful :: "(exn + bool \<times> 'f option) \<Rightarrow> bool" where
  "successful r = (case r of Inl e \<Rightarrow> False | Inr (ret, frame) \<Rightarrow> ret)"

text \<open>
  Mock backends, one per way a camera behaves: it delivers frames, it does not open,
  it opens and delivers nothing, or its constructor raises. The mock counts the capture
  objects it made, the frames it delivered and the \<^verbatim>\<open>release\<close> calls it received;
  a handle is the number of the capture object and a frame is its sequence number.
\<close>

datatype mock_mode = Healthy | NotOpened | NoFrames | Malformed

record mock_world =
  created :: nat
  pulls :: nat
  releases :: nat

definition mock_start :: mock_world where
  "mock_start = \<lparr>created = 0, pulls = 0, releases = 0\<rparr>"

definition mock :: "mock_mode \<Rightarrow> (nat, nat, mock_world) cv2" where
  "mock mode =
     \<lparr>VideoCapture = (\<lambda>target a w.
        if mode = Malformed then (Inl (BackendError ''malformed pipeline''), w)
        else (Inr (created w), w\<lparr>created := created w + 1\<rparr>)),
      cap_set = (\<lambda>h p v w. (Inr True, w)),
      cap_isOpened = (\<lambda>h w. (Inr (mode \<noteq> NotOpened), w)),
      cap_read = (\<lambda>h w.
        if mode = Healthy then (Inr (True, Some (pulls w)), w\<lparr>pulls := pulls w + 1\<rparr>)
        else (Inr (False, None), w)),
      cap_release = (\<lambda>h w. w\<lparr>releases := releases w + 1\<rparr>)\<rparr>"

text \<open>
  The stages of a pipeline description, as the pipeline parser separates them: the
  text between two link marks \<^verbatim>\<open>!\<close>.
\<close>

fun stages :: "string \<Rightarrow> string list" where
  "stages [] = [[]]"
| "stages (c # cs) =
     (if c = CHR ''!'' then [] # stages cs
      else (case stages cs of [] \<Rightarrow> [[c]] | x # xs \<Rightarrow> (c # x) # xs))"

section \<open>Properties\<close>

subsection \<open>What the operations do to the session\<close>

lemma open_try_session:
  assumes "open_try cv now (s, w) = (r, s', w')"
  shows "s' = s\<lparr>cap := cap s', start_time := (if r = Inr True then Some now else start_time s)\<rparr>
           \<and> (r = Inr True \<longrightarrow> cap s' \<noteq> None)"
  using assms
  by (auto simp: open_try_def acquire_def seq_def call_def close_def
           split: if_splits prod.splits sum.splits option.splits)

lemma open_session:
  assumes "open cv now (s, w) = (ok, s', w')"
  shows "s' = s\<lparr>cap := cap s', start_time := (if ok then Some now else start_time s)\<rparr>"
    and "ok \<Longrightarrow> cap s' \<noteq> None"
proof -
  obtain r where r: "open_try cv now (s, w) = (r, s', w')" and ok: "ok = (r = Inr True)"
    using assms by (auto simp: open_def split: prod.splits sum.splits)
  from open_try_session [OF r] ok
  show "s' = s\<lparr>cap := cap s', start_time := (if ok then Some now else start_time s)\<rparr>"
    and "ok \<Longrightarrow> cap s' \<noteq> None" by simp_all
qed

lemma open_frame_count:
  assumes "open cv now (s, w) = (ok, s', w')"
  shows "frame_count s' = frame_count s"
  by (subst open_session(1) [OF assms]) simp

lemma open_start_time:
  assumes "open cv now (s, w) = (ok, s', w')"
  shows "start_time s' = (if ok then Some now else start_time s)"
  by (subst open_session(1) [OF assms]) simp

lemma read_session:
  assumes "read cv (s, w) = (r, s', w')"
  shows "s' = s\<lparr>frame_count := frame_count s + (if successful r then 1 else 0)\<rparr>"
  using assms
  by (auto simp: read_def seq_def call_def successful_def
           split: if_splits prod.splits sum.splits option.splits)

lemma reads_session:
  "reads cv n (s, w) = (rs, s', w') \<Longrightarrow>
     s' = s\<lparr>frame_count := frame_count s + int (length (filter successful rs))\<rparr> \<and> length rs = n"
proof (induction n arbitrary: s w rs)
  case 0
  then show ?case by simp
next
  case (Suc n)
  obtain r s1 w1 where r: "read cv (s, w) = (r, s1, w1)"
    by (cases "read cv (s, w)") auto
  obtain rs1 where rs1: "reads cv n (s1, w1) = (rs1, s', w')" and rs: "rs = r # rs1"
    using Suc.prems r by (auto split: prod.splits)
  from Suc.IH [OF rs1] read_session [OF r] rs show ?case
    by (cases "successful r") simp_all
qed

lemma reads_all_successful:
  assumes "reads cv n (s, w) = (rs, s', w')" and "\<forall>r\<in>set rs. successful r"
  shows "s' = s\<lparr>frame_count := frame_count s + int n\<rparr>"
proof -
  from assms(2) have "filter successful rs = rs" by (simp add: filter_id_conv)
  with reads_session [OF assms(1)] show ?thesis by simp
qed

lemma read_start_time:
  assumes "read cv (s, w) = (r, s', w')"
  shows "start_time s' = start_time s"
  by (subst read_session [OF assms]) simp

lemma reads_start_time:
  assumes "reads cv n (s, w) = (rs, s', w')"
  shows "start_time s' = start_time s"
  using reads_session [OF assms] by (metis session.select_convs(8) session.surjective session.update_convs(7))

subsection \<open>The characters of a formatted integer and the stages of a description\<close>

lemma digit_char_digit: "d < 10 \<Longrightarrow> digit_char d \<in> set ''0123456789''"
  unfolding digit_char_def by (rule nth_mem) simp

lemma str_nat_digits: "set (str_nat n) \<subseteq> set ''0123456789''"
proof (induction n rule: str_nat.induct)
  case (1 n)
  show ?case
  proof (cases "n < 10")
    case True
    then show ?thesis using digit_char_digit [of n] by (subst str_nat.simps) simp
  next
    case False
    with 1 digit_char_digit [of "n mod 10"] show ?thesis
      by (subst str_nat.simps) simp
  qed
qed

lemma str_int_no_link: "CHR ''!'' \<notin> set (str_int i)"
  using str_nat_digits [of "nat i"] str_nat_digits [of "nat (- i)"]
  by (auto simp: str_int_def)

lemma stages_last: "CHR ''!'' \<notin> set a \<Longrightarrow> stages a = [a]"
  by (induction a) auto

lemma stages_link: "CHR ''!'' \<notin> set a \<Longrightarrow> stages (a @ CHR ''!'' # b) = a # stages b"
  by (induction a) auto

subsection \<open>The claims\<close>

text \<open>The definitions a run on a mock backend unfolds.\<close>

lemmas mock_eval = open_def open_try_def acquire_def seq_def call_def close_def read_def
  mock_def mock_start_def init_def successful_def

text \<open>
  Claim C1, as the code has it. \<^verbatim>\<open>open\<close> never assigns \<^verbatim>\<open>frame_count\<close>: when Open
  returns true the counter has the value it had before the call (the trial frame is not
  counted), and after \<open>n\<close> further Read calls that all succeed it is that value plus
  \<open>n\<close>. On a newly constructed session the value before the call is zero, so the counter
  is zero after Open and exactly \<open>n\<close> after the reads.
\<close>

theorem open_leaves_frame_count:
  assumes "open cv now (s, w) = (True, st1)"
    and "reads cv n st1 = (rs, s2, w2)"
    and "\<forall>r\<in>set rs. successful r"
  shows "frame_count (fst st1) = frame_count s \<and> frame_count s2 = frame_count s + int n"
proof -
  obtain s1 w1 where st1: "st1 = (s1, w1)" by (cases st1)
  from assms(1) st1 have s1: "frame_count s1 = frame_count s"
    by (simp add: open_frame_count)
  from reads_all_successful [OF assms(2) [unfolded st1] assms(3)]
  have "frame_count s2 = frame_count s1 + int n" by simp
  with s1 st1 show ?thesis by simp
qed

text \<open>
  The scenario of the specification on the mock that always yields a frame: device
  \<^verbatim>\<open>/dev/video0\<close>, 640 by 480 at 30 frames per second, direct backend; Open succeeds
  with a zero counter and three reads leave it at three.
\<close>

theorem open_leaves_frame_count_witness:
  "open (mock Healthy) 0 (init ''/dev/video0'' 640 480 30 False, mock_start) =
     (True, (init ''/dev/video0'' 640 480 30 False)\<lparr>cap := Some 0, start_time := Some 0\<rparr>,
      \<lparr>created = 1, pulls = 1, releases = 0\<rparr>) \<and>
   frame_count (fst (snd (reads (mock Healthy) 3
     ((init ''/dev/video0'' 640 480 30 False)\<lparr>cap := Some 0, start_time := Some 0\<rparr>,
      \<lparr>created = 1, pulls = 1, releases = 0\<rparr>)))) = 3"
proof -
  let ?s0 = "init ''/dev/video0'' 640 480 30 False :: nat session"
  let ?st1 = "(?s0\<lparr>cap := Some 0, start_time := Some 0\<rparr>, \<lparr>created = 1, pulls = 1, releases = 0\<rparr>)"
  have o: "open (mock Healthy) 0 (?s0, mock_start) = (True, ?st1)"
    by (simp add: mock_eval)
  have r: "reads (mock Healthy) 3 ?st1 =
      ([Inr (True, Some 1), Inr (True, Some 2), Inr (True, Some 3)],
       ?s0\<lparr>cap := Some 0, start_time := Some 0, frame_count := 3\<rparr>,
       \<lparr>created = 1, pulls = 4, releases = 0\<rparr>)"
    by (simp add: mock_eval numeral_3_eq_3)
  have a: "\<forall>r\<in>set [Inr (True, Some 1), Inr (True, Some 2), Inr (True, Some (3::nat))]. successful r"
    by (simp add: successful_def)
  from open_leaves_frame_count [OF o r a] o r show ?thesis
    by (simp add: init_def)
qed

text \<open>
  Claim C1 as stated fails on a session that is opened a second time: open, one
  successful read, close, open again. The second Open returns true and the counter is
  still one, the frame read during the first open.
\<close>

theorem reopen_keeps_frame_count_counterexample:
  "let cv = mock Healthy;
       st0 = (init ''/dev/video0'' 640 480 30 False, mock_start);
       (ok1, st1) = open cv 0 st0;
       (r, st2) = read cv st1;
       st3 = close cv st2;
       (ok2, st4) = open cv 10 st3
   in ok1 \<and> successful r \<and> cap (fst st3) = None \<and> ok2 \<and> frame_count (fst st4) = 1"
  by (simp add: mock_eval)

text \<open>
  Claim C2. \<^verbatim>\<open>open\<close> stores the capture object in \<^verbatim>\<open>self.cap\<close> before it asks
  \<^verbatim>\<open>isOpened()\<close>, and the branch that returns False on line 85 does not call
  \<^verbatim>\<open>close\<close> (the trial-frame branch on line 91 does). On a backend that reports the
  handle as not opened, Open returns false and the session still holds the handle, which
  has not been released.
\<close>

theorem open_not_opened_keeps_handle:
  "open (mock NotOpened) 0 (init ''/dev/video0'' 1280 720 30 True, mock_start) =
     (False, (init ''/dev/video0'' 1280 720 30 True)\<lparr>cap := Some 0\<rparr>,
      \<lparr>created = 1, pulls = 0, releases = 0\<rparr>)"
  by (simp add: mock_eval)

text \<open>
  Claim C3. When the capture object was constructed (and, on the direct backend,
  configured), reports itself opened, and the trial read returns no frame, Open returns
  false, the session is what it was before Open with no handle, and the backend has seen
  exactly one \<^verbatim>\<open>release\<close>, after the trial read. A Close that follows changes neither
  the session nor the backend: it does not release again.
\<close>

theorem open_trial_failure_releases:
  assumes "acquire cv (s, w) = (Inr (), s1, w1)"
    and "cap s1 = Some h"
    and "cap_isOpened cv h w1 = (Inr True, w2)"
    and "cap_read cv h w2 = (Inr (False, fr), w3)"
  shows "open cv now (s, w) = (False, s\<lparr>cap := None\<rparr>, cap_release cv h w3) \<and>
         close cv (s\<lparr>cap := None\<rparr>, cap_release cv h w3) = (s\<lparr>cap := None\<rparr>, cap_release cv h w3)"
proof -
  have s1: "s1\<lparr>cap := None\<rparr> = s\<lparr>cap := None\<rparr>"
    using assms(1)
    by (auto simp: acquire_def seq_def call_def split: if_splits prod.splits sum.splits)
  have "open cv now (s, w) = (False, s1\<lparr>cap := None\<rparr>, cap_release cv h w3)"
    using assms by (simp add: open_def open_try_def seq_def call_def close_def)
  with s1 show ?thesis by (simp add: close_def)
qed

text \<open>
  On the mock that opens and never yields a frame, the release counter is one after the
  failed Open and still one after the Close that follows.
\<close>

theorem open_trial_failure_releases_witness:
  "open (mock NoFrames) 0 (init ''/dev/video0'' 1280 720 30 True, mock_start) =
     (False, init ''/dev/video0'' 1280 720 30 True, \<lparr>created = 1, pulls = 0, releases = 1\<rparr>) \<and>
   close (mock NoFrames)
     (init ''/dev/video0'' 1280 720 30 True, \<lparr>created = 1, pulls = 0, releases = 1\<rparr>) =
     (init ''/dev/video0'' 1280 720 30 True, \<lparr>created = 1, pulls = 0, releases = 1\<rparr>)"
proof -
  let ?s0 = "init ''/dev/video0'' 1280 720 30 True :: nat session"
  let ?w1 = "\<lparr>created = 1, pulls = 0, releases = 0\<rparr>"
  have a: "acquire (mock NoFrames) (?s0, mock_start) = (Inr (), ?s0\<lparr>cap := Some 0\<rparr>, ?w1)"
    by (simp add: mock_eval)
  have c: "cap (?s0\<lparr>cap := Some 0\<rparr>) = Some 0" by simp
  have i: "cap_isOpened (mock NoFrames) 0 ?w1 = (Inr True, ?w1)" by (simp add: mock_def)
  have r: "cap_read (mock NoFrames) 0 ?w1 = (Inr (False, None), ?w1)" by (simp add: mock_def)
  from open_trial_failure_releases [OF a c i r, of 0] show ?thesis
    by (simp add: mock_def init_def)
qed

text \<open>
  Claim C4. On a session that holds a handle, Read pulls from the backend once. When the
  pull reports success, Read returns (true, frame) and the session differs only in
  \<^verbatim>\<open>frame_count\<close>, which is one higher. When the pull reports failure, which
  \<^verbatim>\<open>cv2.VideoCapture.read\<close> does as \<^verbatim>\<open>(False, None)\<close>, Read returns (false, absent)
  and the session is the same record; the backend state is the one after that single
  pull.
\<close>

theorem read_on_open_session:
  assumes "cap s = Some h"
  shows "(cap_read cv h w = (Inr (True, fr), w') \<longrightarrow>
            read cv (s, w) = (Inr (True, fr), s\<lparr>frame_count := frame_count s + 1\<rparr>, w')) \<and>
         (cap_read cv h w = (Inr (False, None), w') \<longrightarrow>
            read cv (s, w) = (Inr (False, None), s, w'))"
  using assms by (simp add: read_def seq_def call_def)

text \<open>
  A pull that succeeds on the mock that yields frames, and one that fails on the mock that
  yields none.
\<close>

theorem read_on_open_session_witness:
  "read (mock Healthy) ((init ''/dev/video0'' 640 480 30 False)\<lparr>cap := Some 0\<rparr>, mock_start) =
     (Inr (True, Some 0), (init ''/dev/video0'' 640 480 30 False)\<lparr>cap := Some 0, frame_count := 1\<rparr>,
      \<lparr>created = 0, pulls = 1, releases = 0\<rparr>) \<and>
   read (mock NoFrames) ((init ''/dev/video0'' 640 480 30 False)\<lparr>cap := Some 0\<rparr>, mock_start) =
     (Inr (False, None), (init ''/dev/video0'' 640 480 30 False)\<lparr>cap := Some 0\<rparr>, mock_start)"
proof -
  let ?s = "(init ''/dev/video0'' 640 480 30 False)\<lparr>cap := Some (0::nat)\<rparr>"
  have c: "cap ?s = Some 0" by simp
  have g: "cap_read (mock Healthy) 0 mock_start =
             (Inr (True, Some 0), \<lparr>created = 0, pulls = 1, releases = 0\<rparr>)"
    by (simp add: mock_def mock_start_def)
  have b: "cap_read (mock NoFrames) 0 mock_start = (Inr (False, None), mock_start)"
    by (simp add: mock_def)
  from read_on_open_session [OF c, of "mock Healthy" mock_start "Some 0"
         "\<lparr>created = 0, pulls = 1, releases = 0\<rparr>"] g
       read_on_open_session [OF c, of "mock NoFrames" mock_start fr mock_start] b
  show ?thesis by (simp add: init_def)
qed

text \<open>
  Claim C5. On a session without a handle, Read returns (false, absent), raises nothing
  and changes neither the session nor the backend. A newly constructed session and a
  session that was just closed are such sessions.
\<close>

theorem read_when_not_open:
  "(cap s = None \<longrightarrow> read cv (s, w) = (Inr (False, None), s, w)) \<and>
   read cv (init d wd ht fr g, w) = (Inr (False, None), init d wd ht fr g, w) \<and>
   read cv (close cv st) = (Inr (False, None), close cv st)"
  by (cases st) (simp add: read_def init_def close_def split: option.splits)

text \<open>
  A newly constructed session has no handle, and Read on it returns (false, absent).
\<close>

theorem read_when_not_open_witness:
  "cap (init ''/dev/video0'' 640 480 30 False :: nat session) = None \<and>
   read (mock Healthy) (init ''/dev/video0'' 640 480 30 False, mock_start) =
     (Inr (False, None), init ''/dev/video0'' 640 480 30 False, mock_start)"
  using read_when_not_open [of "init ''/dev/video0'' 640 480 30 False" "mock Healthy" mock_start]
  by (simp add: init_def)

text \<open>
  Claim C6, as the code has it. \<^verbatim>\<open>get_fps\<close> returns 0.0 when no start time is
  recorded or the frame counter is zero, and also when the clock reading is not later
  than the start time (the guard on line 132); otherwise it returns the frame counter
  divided by the seconds elapsed since the start time. A newly constructed session has
  no start time, an Open that returns false leaves the start time as it was, and an Open
  that returns true records the clock reading, which the reads that follow keep: the
  ratio is a running average since the latest successful Open.
\<close>

theorem get_fps_running_average:
  "(start_time s = None \<or> frame_count s = 0 \<longrightarrow> get_fps now s = 0) \<and>
   (start_time s = Some t0 \<and> frame_count s \<noteq> 0 \<and> t0 < now \<longrightarrow>
      get_fps now s = real_of_int (frame_count s) / (now - t0)) \<and>
   (start_time s = Some t0 \<and> now \<le> t0 \<longrightarrow> get_fps now s = 0) \<and>
   get_fps now (init d wd ht fr g) = 0 \<and>
   (open cv t st = (False, st1) \<longrightarrow> start_time (fst st1) = start_time (fst st)) \<and>
   (open cv t st = (True, st1) \<and> reads cv n st1 = (rs, st2) \<longrightarrow>
      start_time (fst st2) = Some t)"
proof -
  obtain s0 w0 where st: "st = (s0, w0)" by (cases st)
  have a: "start_time s = None \<or> frame_count s = 0 \<longrightarrow> get_fps now s = 0"
    by (auto simp: get_fps_def split: option.splits)
  have b: "start_time s = Some t0 \<and> frame_count s \<noteq> 0 \<and> t0 < now \<longrightarrow>
      get_fps now s = real_of_int (frame_count s) / (now - t0)"
    by (simp add: get_fps_def)
  have c: "start_time s = Some t0 \<and> now \<le> t0 \<longrightarrow> get_fps now s = 0"
    by (simp add: get_fps_def)
  have d: "get_fps now (init d wd ht fr g) = 0"
    by (simp add: get_fps_def init_def)
  have e: "open cv t st = (False, st1) \<longrightarrow> start_time (fst st1) = start_time (fst st)"
  proof
    assume h: "open cv t st = (False, st1)"
    obtain s1 w1 where st1: "st1 = (s1, w1)" by (cases st1)
    from h st st1 have o: "open cv t (s0, w0) = (False, s1, w1)" by simp
    from open_start_time [OF o] st st1 show "start_time (fst st1) = start_time (fst st)" by simp
  qed
  have f: "open cv t st = (True, st1) \<and> reads cv n st1 = (rs, st2) \<longrightarrow>
      start_time (fst st2) = Some t"
  proof
    assume h: "open cv t st = (True, st1) \<and> reads cv n st1 = (rs, st2)"
    obtain s1 w1 where st1: "st1 = (s1, w1)" by (cases st1)
    obtain s2 w2 where st2: "st2 = (s2, w2)" by (cases st2)
    from h st st1 have o: "open cv t (s0, w0) = (True, s1, w1)" by simp
    from h st1 st2 have r: "reads cv n (s1, w1) = (rs, s2, w2)" by simp
    from open_start_time [OF o] have "start_time s1 = Some t" by simp
    moreover from reads_start_time [OF r] have "start_time s2 = start_time s1" .
    ultimately show "start_time (fst st2) = Some t" using st2 by simp
  qed
  from a b c d e f show ?thesis by blast
qed

text \<open>
  Three frames counted and a start time of 10: the rate is 3/2 at clock reading 12 and
  0.0 at clock reading 10; a new session reports 0.0; the start time is the clock reading
  of the successful Open after three reads, and absent after an Open that failed.
\<close>

theorem get_fps_running_average_witness:
  "get_fps 12 ((init ''/dev/video0'' 640 480 30 False :: nat session)
      \<lparr>cap := Some 0, start_time := Some 10, frame_count := 3\<rparr>) = 3 / 2 \<and>
   get_fps 12 (init ''/dev/video0'' 640 480 30 False :: nat session) = 0 \<and>
   get_fps 10 ((init ''/dev/video0'' 640 480 30 False :: nat session)
      \<lparr>cap := Some 0, start_time := Some 10, frame_count := 3\<rparr>) = 0 \<and>
   start_time (fst (snd (reads (mock Healthy) 3
      (snd (open (mock Healthy) 10 (init ''/dev/video0'' 640 480 30 False, mock_start)))))) = Some 10 \<and>
   start_time (fst (snd (open (mock NotOpened) 10
      (init ''/dev/video0'' 640 480 30 False, mock_start)))) = None"
proof -
  let ?i = "init ''/dev/video0'' 640 480 30 False :: nat session"
  let ?s3 = "?i\<lparr>cap := Some 0, start_time := Some 10, frame_count := 3\<rparr>"
  have o: "open (mock Healthy) 10 (?i, mock_start) =
      (True, ?i\<lparr>cap := Some 0, start_time := Some 10\<rparr>, \<lparr>created = 1, pulls = 1, releases = 0\<rparr>)"
    by (simp add: mock_eval)
  have r: "reads (mock Healthy) 3
      (?i\<lparr>cap := Some 0, start_time := Some 10\<rparr>, \<lparr>created = 1, pulls = 1, releases = 0\<rparr>) =
      ([Inr (True, Some 1), Inr (True, Some 2), Inr (True, Some 3)], ?s3,
       \<lparr>created = 1, pulls = 4, releases = 0\<rparr>)"
    by (simp add: mock_eval numeral_3_eq_3)
  have n: "open (mock NotOpened) 10 (?i, mock_start) =
      (False, ?i\<lparr>cap := Some 0\<rparr>, \<lparr>created = 1, pulls = 0, releases = 0\<rparr>)"
    by (simp add: mock_eval)
  have 1: "get_fps 12 ?s3 = 3 / 2"
    using get_fps_running_average [where s = ?s3 and now = 12 and ?t0.0 = 10,
      THEN conjunct2, THEN conjunct1]
    by (simp add: init_def)
  have 2: "get_fps 12 ?i = 0"
    using get_fps_running_average [where now = 12 and d = "''/dev/video0''" and wd = 640
      and ht = 480 and fr = 30 and g = False,
      THEN conjunct2, THEN conjunct2, THEN conjunct2, THEN conjunct1] .
  have 3: "get_fps 10 ?s3 = 0"
    using get_fps_running_average [where s = ?s3 and now = 10 and ?t0.0 = 10,
      THEN conjunct2, THEN conjunct2, THEN conjunct1]
    by (simp add: init_def)
  have 4: "start_time (fst (snd (reads (mock Healthy) 3
      (snd (open (mock Healthy) 10 (?i, mock_start)))))) = Some 10"
    using get_fps_running_average [where cv = "mock Healthy" and t = 10
      and st = "(?i, mock_start)" and n = 3
      and ?st1.0 = "snd (open (mock Healthy) 10 (?i, mock_start))"
      and rs = "fst (reads (mock Healthy) 3 (snd (open (mock Healthy) 10 (?i, mock_start))))"
      and ?st2.0 = "snd (reads (mock Healthy) 3 (snd (open (mock Healthy) 10 (?i, mock_start))))",
      THEN conjunct2, THEN conjunct2, THEN conjunct2, THEN conjunct2, THEN conjunct2]
      o
    by simp
  have 5: "start_time (fst (snd (open (mock NotOpened) 10 (?i, mock_start)))) = None"
    using get_fps_running_average [where cv = "mock NotOpened" and t = 10
      and st = "(?i, mock_start)"
      and ?st1.0 = "snd (open (mock NotOpened) 10 (?i, mock_start))",
      THEN conjunct2, THEN conjunct2, THEN conjunct2, THEN conjunct2, THEN conjunct1]
      n
    by (simp add: init_def)
  from 1 2 3 4 5 show ?thesis by blast
qed

text \<open>
  Claim C6 as stated fails when the clock is set back after Open: Open at clock reading
  10, three successful reads, \<^verbatim>\<open>get_fps\<close> at clock reading 5. The session was opened
  and has counted three frames, yet the result is 0.0 and not the quotient of the frame
  counter by the elapsed time.
\<close>

theorem get_fps_clock_stepped_back_counterexample:
  "let cv = mock Healthy;
       (ok, st1) = open cv 10 (init ''/dev/video0'' 640 480 30 False, mock_start);
       (rs, st2) = reads cv 3 st1
   in ok \<and> frame_count (fst st2) = 3 \<and> start_time (fst st2) = Some 10 \<and>
      get_fps 5 (fst st2) = 0 \<and>
      get_fps 5 (fst st2) \<noteq> real_of_int (frame_count (fst st2)) / (5 - 10)"
  by (simp add: mock_eval get_fps_def numeral_3_eq_3)

text \<open>
  Claim C7. Close releases the handle when the session holds one and leaves the session
  without a handle; on a session without a handle, a newly constructed one included, it
  changes nothing. Closing twice gives the same session and the same backend state as
  closing once, and the model of \<^verbatim>\<open>close\<close> has no raising branch.
\<close>

theorem close_idempotent:
  "close cv (close cv st) = close cv st \<and>
   cap (fst (close cv st)) = None \<and>
   (cap s = Some h \<longrightarrow> close cv (s, w) = (s\<lparr>cap := None\<rparr>, cap_release cv h w)) \<and>
   (cap s = None \<longrightarrow> close cv (s, w) = (s, w)) \<and>
   close cv (init d wd ht fr g, w) = (init d wd ht fr g, w)"
  by (cases st) (simp add: close_def init_def split: option.splits)

text \<open>
  On the mock, closing a session that holds a handle releases once; closing again leaves
  the release counter at one; closing a new session leaves it at zero.
\<close>

theorem close_idempotent_witness:
  "close (mock Healthy) ((init ''/dev/video0'' 640 480 30 False)\<lparr>cap := Some 0\<rparr>, mock_start) =
     (init ''/dev/video0'' 640 480 30 False, \<lparr>created = 0, pulls = 0, releases = 1\<rparr>) \<and>
   close (mock Healthy) (close (mock Healthy)
       ((init ''/dev/video0'' 640 480 30 False)\<lparr>cap := Some 0\<rparr>, mock_start)) =
     (init ''/dev/video0'' 640 480 30 False, \<lparr>created = 0, pulls = 0, releases = 1\<rparr>) \<and>
   close (mock Healthy) (init ''/dev/video0'' 640 480 30 False, mock_start) =
     (init ''/dev/video0'' 640 480 30 False, mock_start)"
proof -
  let ?i = "init ''/dev/video0'' 640 480 30 False :: nat session"
  let ?st = "(?i\<lparr>cap := Some 0\<rparr>, mock_start)"
  have 1: "close (mock Healthy) ?st = (?i, \<lparr>created = 0, pulls = 0, releases = 1\<rparr>)"
    using close_idempotent [where cv = "mock Healthy" and s = "?i\<lparr>cap := Some 0\<rparr>"
      and h = 0 and w = mock_start, THEN conjunct2, THEN conjunct2, THEN conjunct1]
    by (simp add: init_def mock_def mock_start_def)
  have 2: "close (mock Healthy) (close (mock Healthy) ?st) = close (mock Healthy) ?st"
    using close_idempotent [where cv = "mock Healthy" and st = ?st, THEN conjunct1] .
  have 3: "close (mock Healthy) (?i, mock_start) = (?i, mock_start)"
    using close_idempotent [where cv = "mock Healthy" and w = mock_start
      and d = "''/dev/video0''" and wd = 640 and ht = 480 and fr = 30 and g = False,
      THEN conjunct2, THEN conjunct2, THEN conjunct2, THEN conjunct2] .
  from 1 2 3 show ?thesis by simp
qed

text \<open>
  Claim C8, as the code has it. Open reports every failure through its result: an
  exception raised anywhere in the \<^verbatim>\<open>try\<close> block is caught by
  \<^verbatim>\<open>except Exception\<close> and Open returns false, in particular when the constructor
  of the capture object raises, on either backend (the session is then unchanged); and
  the expected failures, a handle that is not opened and a trial read without a frame,
  return false as well.
\<close>

theorem open_reports_by_result:
  "(open_try cv now st = (Inl e, st1) \<longrightarrow> open cv now st = (False, st1)) \<and>
   (use_gstreamer s \<and>
    VideoCapture cv (build_gstreamer_pipeline s) CAP_GSTREAMER w = (Inl e, w1) \<longrightarrow>
      open cv now (s, w) = (False, s, w1)) \<and>
   (\<not> use_gstreamer s \<and> VideoCapture cv (device s) CAP_V4L2 w = (Inl e, w1) \<longrightarrow>
      open cv now (s, w) = (False, s, w1)) \<and>
   (acquire cv (s, w) = (Inr (), s1, w1) \<and> cap s1 = Some h \<and>
    cap_isOpened cv h w1 = (Inr False, w2) \<longrightarrow>
      fst (open cv now (s, w)) = False) \<and>
   (acquire cv (s, w) = (Inr (), s1, w1) \<and> cap s1 = Some h \<and>
    cap_isOpened cv h w1 = (Inr True, w2) \<and> cap_read cv h w2 = (Inr (False, fr), w3) \<longrightarrow>
      fst (open cv now (s, w)) = False)"
proof -
  have a: "open_try cv now st = (Inl e, st1) \<longrightarrow> open cv now st = (False, st1)"
    by (simp add: open_def)
  have b: "use_gstreamer s \<and>
    VideoCapture cv (build_gstreamer_pipeline s) CAP_GSTREAMER w = (Inl e, w1) \<longrightarrow>
      open cv now (s, w) = (False, s, w1)"
    by (simp add: open_def open_try_def acquire_def seq_def)
  have c: "\<not> use_gstreamer s \<and> VideoCapture cv (device s) CAP_V4L2 w = (Inl e, w1) \<longrightarrow>
      open cv now (s, w) = (False, s, w1)"
    by (simp add: open_def open_try_def acquire_def seq_def)
  have d: "acquire cv (s, w) = (Inr (), s1, w1) \<and> cap s1 = Some h \<and>
    cap_isOpened cv h w1 = (Inr False, w2) \<longrightarrow> fst (open cv now (s, w)) = False"
    by (simp add: open_def open_try_def seq_def call_def)
  have e: "acquire cv (s, w) = (Inr (), s1, w1) \<and> cap s1 = Some h \<and>
    cap_isOpened cv h w1 = (Inr True, w2) \<and> cap_read cv h w2 = (Inr (False, fr), w3) \<longrightarrow>
      fst (open cv now (s, w)) = False"
    by (simp add: open_def open_try_def seq_def call_def close_def split: prod.splits)
  from a b c d e show ?thesis by blast
qed

text \<open>
  The mock whose constructor raises makes Open return false on both backends; the mocks
  that do not open or yield no frame make Open return false.
\<close>

theorem open_reports_by_result_witness:
  "open (mock Malformed) 0 (init ''/dev/video0'' 1280 720 30 True, mock_start) =
     (False, init ''/dev/video0'' 1280 720 30 True, mock_start) \<and>
   open (mock Malformed) 0 (init ''/dev/video0'' 640 480 30 False, mock_start) =
     (False, init ''/dev/video0'' 640 480 30 False, mock_start) \<and>
   fst (open (mock NotOpened) 0 (init ''/dev/video0'' 1280 720 30 True, mock_start)) = False \<and>
   fst (open (mock NoFrames) 0 (init ''/dev/video0'' 1280 720 30 True, mock_start)) = False"
proof -
  let ?g = "init ''/dev/video0'' 1280 720 30 True :: nat session"
  let ?d = "init ''/dev/video0'' 640 480 30 False :: nat session"
  let ?w = "\<lparr>created = 1, pulls = 0, releases = 0\<rparr>"
  have 1: "open (mock Malformed) 0 (?g, mock_start) = (False, ?g, mock_start)"
    using open_reports_by_result [where cv = "mock Malformed" and s = ?g and w = mock_start
      and e = "BackendError ''malformed pipeline''" and ?w1.0 = mock_start and now = 0,
      THEN conjunct2, THEN conjunct1]
    by (simp add: mock_def init_def)
  have 2: "open (mock Malformed) 0 (?d, mock_start) = (False, ?d, mock_start)"
    using open_reports_by_result [where cv = "mock Malformed" and s = ?d and w = mock_start
      and e = "BackendError ''malformed pipeline''" and ?w1.0 = mock_start and now = 0,
      THEN conjunct2, THEN conjunct2, THEN conjunct1]
    by (simp add: mock_def init_def)
  have 3: "fst (open (mock NotOpened) 0 (?g, mock_start)) = False"
    using open_reports_by_result [where cv = "mock NotOpened" and s = ?g and w = mock_start
      and ?s1.0 = "?g\<lparr>cap := Some 0\<rparr>" and ?w1.0 = ?w and h = 0 and ?w2.0 = ?w and now = 0,
      THEN conjunct2, THEN conjunct2, THEN conjunct2, THEN conjunct1]
    by (simp add: mock_def init_def acquire_def mock_start_def)
  have 4: "fst (open (mock NoFrames) 0 (?g, mock_start)) = False"
    using open_reports_by_result [where cv = "mock NoFrames" and s = ?g and w = mock_start
      and ?s1.0 = "?g\<lparr>cap := Some 0\<rparr>" and ?w1.0 = ?w and h = 0 and ?w2.0 = ?w
      and fr = None and ?w3.0 = ?w and now = 0,
      THEN conjunct2, THEN conjunct2, THEN conjunct2, THEN conjunct2]
    by (simp add: mock_def init_def acquire_def mock_start_def)
  from 1 2 3 4 show ?thesis by blast
qed

text \<open>
  Claim C8 as stated fails where the backend raises on a malformed pipeline description:
  the constructor raises, the \<^verbatim>\<open>try\<close> block ends with that exception, and Open does
  not let it escape but returns false.
\<close>

theorem malformed_pipeline_caught_counterexample:
  "VideoCapture (mock Malformed)
     (build_gstreamer_pipeline (init ''/dev/video0'' 1280 720 30 True)) CAP_GSTREAMER mock_start =
     (Inl (BackendError ''malformed pipeline''), mock_start) \<and>
   open_try (mock Malformed) 0 (init ''/dev/video0'' 1280 720 30 True, mock_start) =
     (Inl (BackendError ''malformed pipeline''), init ''/dev/video0'' 1280 720 30 True, mock_start) \<and>
   open (mock Malformed) 0 (init ''/dev/video0'' 1280 720 30 True, mock_start) =
     (False, init ''/dev/video0'' 1280 720 30 True, mock_start)"
  by (simp add: mock_eval)

text \<open>
  Claim C9. For every width, height and frame rate the description consists of seven
  stages linked by \<^verbatim>\<open>!\<close>: the sensor source \<^verbatim>\<open>nvarguscamerasrc\<close>, its
  capabilities in device memory with the requested geometry and frame rate, the hardware
  converter \<^verbatim>\<open>nvvidconv\<close>, the requested geometry in BGRx, \<^verbatim>\<open>videoconvert\<close>, the
  BGR output format, and last the sink
  \<^verbatim>\<open>appsink max-buffers=1 drop=true sync=false\<close>, with which the string ends. On the
  accelerated backend Open constructs the capture object from exactly this string, with
  the GStreamer API preference.
\<close>

theorem pipeline_ends_in_fresh_frame_sink:
  "stages (build_gstreamer_pipeline s) =
     [''nvarguscamerasrc sensor-id=0 '',
      '' video/x-raw(memory:NVMM), width='' @ str_int (width s) @ '', height='' @
         str_int (height s) @ '', format=NV12, framerate='' @ str_int (framerate s) @ ''/1 '',
      '' nvvidconv '',
      '' video/x-raw, width='' @ str_int (width s) @ '', height='' @ str_int (height s) @
         '', format=BGRx '',
      '' videoconvert '',
      '' video/x-raw, format=BGR '',
      '' appsink max-buffers=1 drop=true sync=false''] \<and>
   suffix ''appsink max-buffers=1 drop=true sync=false'' (build_gstreamer_pipeline s) \<and>
   (use_gstreamer s \<longrightarrow>
      acquire cv (s, w) =
        (case VideoCapture cv (build_gstreamer_pipeline s) CAP_GSTREAMER w of
           (Inl e, w') \<Rightarrow> (Inl e, s, w')
         | (Inr h, w') \<Rightarrow> (Inr (), s\<lparr>cap := Some h\<rparr>, w')))"
proof -
  let ?a1 = "''nvarguscamerasrc sensor-id=0 ''"
  let ?a2 = "'' video/x-raw(memory:NVMM), width='' @ str_int (width s) @ '', height='' @
         str_int (height s) @ '', format=NV12, framerate='' @ str_int (framerate s) @ ''/1 ''"
  let ?a3 = "'' nvvidconv ''"
  let ?a4 = "'' video/x-raw, width='' @ str_int (width s) @ '', height='' @ str_int (height s) @
         '', format=BGRx ''"
  let ?a5 = "'' videoconvert ''"
  let ?a6 = "'' video/x-raw, format=BGR ''"
  let ?a7 = "'' appsink max-buffers=1 drop=true sync=false''"
  have b: "build_gstreamer_pipeline s =
      ?a1 @ CHR ''!'' # ?a2 @ CHR ''!'' # ?a3 @ CHR ''!'' # ?a4 @ CHR ''!'' # ?a5 @
      CHR ''!'' # ?a6 @ CHR ''!'' # ?a7"
    by (simp add: build_gstreamer_pipeline_def)
  have n1: "CHR ''!'' \<notin> set ?a1" by simp
  have n2: "CHR ''!'' \<notin> set ?a2" by (simp add: str_int_no_link)
  have n3: "CHR ''!'' \<notin> set ?a3" by simp
  have n4: "CHR ''!'' \<notin> set ?a4" by (simp add: str_int_no_link)
  have n5: "CHR ''!'' \<notin> set ?a5" by simp
  have n6: "CHR ''!'' \<notin> set ?a6" by simp
  have n7: "CHR ''!'' \<notin> set ?a7" by simp
  have st: "stages (build_gstreamer_pipeline s) = [?a1, ?a2, ?a3, ?a4, ?a5, ?a6, ?a7]"
    by (simp only: b stages_link [OF n1] stages_link [OF n2] stages_link [OF n3]
          stages_link [OF n4] stages_link [OF n5] stages_link [OF n6] stages_last [OF n7])
  have sf: "suffix ''appsink max-buffers=1 drop=true sync=false'' (build_gstreamer_pipeline s)"
    unfolding build_gstreamer_pipeline_def by (intro suffix_appendI) simp
  have aq: "use_gstreamer s \<longrightarrow>
      acquire cv (s, w) =
        (case VideoCapture cv (build_gstreamer_pipeline s) CAP_GSTREAMER w of
           (Inl e, w') \<Rightarrow> (Inl e, s, w')
         | (Inr h, w') \<Rightarrow> (Inr (), s\<lparr>cap := Some h\<rparr>, w'))"
    by (simp add: acquire_def)
  from st sf aq show ?thesis by blast
qed

text \<open>
  The description for 1280 by 720 at 30 frames per second, stage by stage, and the
  capture object the mock constructs from it.
\<close>

theorem pipeline_ends_in_fresh_frame_sink_witness:
  "stages (build_gstreamer_pipeline (init ''/dev/video0'' 1280 720 30 True :: nat session)) =
     [''nvarguscamerasrc sensor-id=0 '',
      '' video/x-raw(memory:NVMM), width=1280, height=720, format=NV12, framerate=30/1 '',
      '' nvvidconv '',
      '' video/x-raw, width=1280, height=720, format=BGRx '',
      '' videoconvert '',
      '' video/x-raw, format=BGR '',
      '' appsink max-buffers=1 drop=true sync=false''] \<and>
   acquire (mock Healthy) (init ''/dev/video0'' 1280 720 30 True, mock_start) =
     (Inr (), (init ''/dev/video0'' 1280 720 30 True)\<lparr>cap := Some 0\<rparr>,
      \<lparr>created = 1, pulls = 0, releases = 0\<rparr>)"
proof -
  let ?g = "init ''/dev/video0'' 1280 720 30 True :: nat session"
  have w: "str_int 1280 = ''1280''" by code_simp
  have h: "str_int 720 = ''720''" by code_simp
  have f: "str_int 30 = ''30''" by code_simp
  have 1: "stages (build_gstreamer_pipeline ?g) =
     [''nvarguscamerasrc sensor-id=0 '',
      '' video/x-raw(memory:NVMM), width=1280, height=720, format=NV12, framerate=30/1 '',
      '' nvvidconv '',
      '' video/x-raw, width=1280, height=720, format=BGRx '',
      '' videoconvert '',
      '' video/x-raw, format=BGR '',
      '' appsink max-buffers=1 drop=true sync=false'']"
    using pipeline_ends_in_fresh_frame_sink [where s = ?g, THEN conjunct1]
    by (simp add: init_def w h f)
  have 2: "acquire (mock Healthy) (?g, mock_start) =
     (Inr (), ?g\<lparr>cap := Some 0\<rparr>, \<lparr>created = 1, pulls = 0, releases = 0\<rparr>)"
    using pipeline_ends_in_fresh_frame_sink [where s = ?g and cv = "mock Healthy"
      and w = mock_start, THEN conjunct2, THEN conjunct2]
    by (simp add: init_def mock_def mock_start_def)
  from 1 2 show ?thesis by blast
qed

text \<open>
  Claim C10. \<^verbatim>\<open>__enter__\<close> leaves the session and the backend as Open leaves them
  and returns the session whatever Open returned; \<^verbatim>\<open>__exit__\<close> is Close whatever
  exception it is told about. Hence a \<^verbatim>\<open>with\<close> block ends with the outcome of its
  body, exception or value, and with the session closed.
\<close>

theorem context_manager:
  "enter cv now st = snd (open cv now st) \<and>
   exit cv exc st = close cv st \<and>
   fst (with_session cv now body st) = fst (body (snd (open cv now st))) \<and>
   snd (with_session cv now body st) = close cv (snd (body (snd (open cv now st)))) \<and>
   cap (fst (snd (with_session cv now body st))) = None"
proof -
  have c: "cap (fst (close cv x)) = None" for x
    by (cases x) (simp add: close_def split: option.splits)
  have e: "enter cv now st = snd (open cv now st)"
    by (simp add: enter_def split: prod.splits)
  have w: "with_session cv now body st =
      (fst (body (snd (open cv now st))), close cv (snd (body (snd (open cv now st)))))"
    by (simp add: with_session_def e exit_def split: prod.splits sum.splits)
  from e w c show ?thesis by (simp add: exit_def)
qed

text \<open>
  Entering on the mock that does not open still yields the session (with the handle of
  the failed Open); a block that raises on the healthy mock ends with that exception, no
  handle and one release.
\<close>

theorem context_manager_witness:
  "enter (mock NotOpened) 0 (init ''/dev/video0'' 1280 720 30 True, mock_start) =
     ((init ''/dev/video0'' 1280 720 30 True)\<lparr>cap := Some 0\<rparr>,
      \<lparr>created = 1, pulls = 0, releases = 0\<rparr>) \<and>
   with_session (mock Healthy) 0 (\<lambda>st. (Inl (BackendError ''stop'') :: exn + unit, st))
       (init ''/dev/video0'' 1280 720 30 True, mock_start) =
     (Inl (BackendError ''stop''),
      (init ''/dev/video0'' 1280 720 30 True)\<lparr>start_time := Some 0\<rparr>,
      \<lparr>created = 1, pulls = 1, releases = 1\<rparr>)"
proof -
  let ?g = "init ''/dev/video0'' 1280 720 30 True :: nat session"
  let ?body = "\<lambda>st :: nat session \<times> mock_world. (Inl (BackendError ''stop'') :: exn + unit, st)"
  have n: "open (mock NotOpened) 0 (?g, mock_start) =
      (False, ?g\<lparr>cap := Some 0\<rparr>, \<lparr>created = 1, pulls = 0, releases = 0\<rparr>)"
    by (simp add: mock_eval)
  have o: "open (mock Healthy) 0 (?g, mock_start) =
      (True, ?g\<lparr>cap := Some 0, start_time := Some 0\<rparr>, \<lparr>created = 1, pulls = 1, releases = 0\<rparr>)"
    by (simp add: mock_eval)
  have 1: "enter (mock NotOpened) 0 (?g, mock_start) =
      (?g\<lparr>cap := Some 0\<rparr>, \<lparr>created = 1, pulls = 0, releases = 0\<rparr>)"
    using context_manager [where cv = "mock NotOpened" and now = 0 and st = "(?g, mock_start)",
      THEN conjunct1] n
    by simp
  have 2: "fst (with_session (mock Healthy) 0 ?body (?g, mock_start)) = Inl (BackendError ''stop'')"
    using context_manager [where cv = "mock Healthy" and now = 0 and st = "(?g, mock_start)"
      and body = ?body, THEN conjunct2, THEN conjunct2, THEN conjunct1]
    by simp
  have 3: "snd (with_session (mock Healthy) 0 ?body (?g, mock_start)) =
      (?g\<lparr>start_time := Some 0\<rparr>, \<lparr>created = 1, pulls = 1, releases = 1\<rparr>)"
    using context_manager [where cv = "mock Healthy" and now = 0 and st = "(?g, mock_start)"
      and body = ?body, THEN conjunct2, THEN conjunct2, THEN conjunct2, THEN conjunct1] o
    by (simp add: close_def mock_def init_def)
  from 1 2 3 show ?thesis by (simp add: prod_eq_iff)
qed

end
